theory Spec2Isabelle
  imports Complex_Main
begin

section \<open>The program and its environment\<close>

text \<open>
  The program is \<^verbatim>\<open>src/main.cpp\<close>: \<^verbatim>\<open>main\<close>, \<^verbatim>\<open>framebuffer_size_callback\<close> and
  \<^verbatim>\<open>processInput\<close>. Everything else it touches is a call into GLFW, GLAD or OpenGL, or a
  write to \<^verbatim>\<open>std::cout\<close>. The embedding keeps the program's own control flow and makes
  the libraries explicit:
  \<^item> every library call and every write to \<^verbatim>\<open>std::cout\<close> is appended, in program order,
    to a trace of \<open>call\<close> values;
  \<^item> what a library call returns to the program is read from an environment \<open>env\<close>
    (the result of \<^verbatim>\<open>glfwInit\<close>, the handle of \<^verbatim>\<open>glfwCreateWindow\<close>, the result of
    \<^verbatim>\<open>gladLoadGLLoader\<close>, and for each pass of the render loop the state of the Escape
    key and the events that \<^verbatim>\<open>glfwPollEvents\<close> dispatches);
  \<^item> the library state the program can observe or change is a record \<open>world\<close>.
\<close>

subsection \<open>Names of the library headers\<close>

text \<open>
  The macros of \<^verbatim>\<open>glad/glad.h\<close> and \<^verbatim>\<open>GLFW/glfw3.h\<close> are kept as symbolic names; their
  numeric values are not part of \<^verbatim>\<open>main.cpp\<close>.
\<close>

datatype hint =
    GLFW_CONTEXT_VERSION_MAJOR
  | GLFW_CONTEXT_VERSION_MINOR
  | GLFW_OPENGL_PROFILE
  | GLFW_OPENGL_FORWARD_COMPAT

datatype hint_value = Int_value int | GLFW_OPENGL_CORE_PROFILE | GL_TRUE

datatype key = GLFW_KEY_ESCAPE

datatype key_action = GLFW_RELEASE | GLFW_PRESS

text \<open>
  A bit mask built with \<^verbatim>\<open>|\<close> from distinct flag macros is the set of the flags in it.
\<close>

datatype buffer_bit = GL_COLOR_BUFFER_BIT | GL_DEPTH_BUFFER_BIT

text \<open>A non-null \<^verbatim>\<open>GLFWwindow*\<close>; a null pointer is \<open>None\<close> of \<open>handle option\<close>.\<close>

type_synonym handle = nat

subsection \<open>The trace\<close>

text \<open>
  One constructor for each library function that \<^verbatim>\<open>main.cpp\<close> calls, with the arguments
  of the call, and \<open>Cout\<close> for a string written to \<^verbatim>\<open>std::cout\<close>. The float literals
  \<^verbatim>\<open>0.5f\<close>, \<^verbatim>\<open>0.2f\<close>, \<^verbatim>\<open>0.3f\<close>, \<^verbatim>\<open>1.0f\<close> are kept as the decimal numbers they are
  written as.
\<close>

datatype call =
    GlfwInit
  | GlfwWindowHint hint hint_value
  | GlfwCreateWindow int int string "handle option" "handle option"
  | GlfwTerminate
  | GlfwMakeContextCurrent handle
  | GladLoadGLLoader
  | GlViewport int int int int
  | GlfwSetFramebufferSizeCallback handle
  | GlfwWindowShouldClose handle
  | GlfwGetKey handle key
  | GlfwSetWindowShouldClose handle bool
  | GlClearColor real real real real
  | GlClear "buffer_bit set"
  | GlfwSwapBuffers handle
  | GlfwPollEvents
  | Cout string

subsection \<open>The environment\<close>

text \<open>
  An event that \<^verbatim>\<open>glfwPollEvents\<close> processes: the framebuffer of the window got a new
  size, or the user or the window manager asked to close the window.
\<close>

datatype event = FramebufferResize int int | CloseRequest

text \<open>
  What the environment supplies to one pass of the render loop: the value that
  \<^verbatim>\<open>glfwGetKey(window, GLFW_KEY_ESCAPE)\<close> returns in \<^verbatim>\<open>processInput\<close>, and the events
  pending at \<^verbatim>\<open>glfwPollEvents\<close>, in the order of their dispatch.
\<close>

record frame =
  escape :: key_action
  events :: "event list"

text \<open>
  \<open>frames\<close> is the finite part of the run that is observed: one entry for each pass of
  the loop. A run whose window is still open when the entries are used up has not
  returned (\<open>None\<close> below).
\<close>

record env =
  init_result :: bool
  created_window :: "handle option"
  created_fb_size :: "int \<times> int"
  glad_result :: int
  frames :: "frame list"

subsection \<open>The library state\<close>

text \<open>
  The window: its close-requested flag, the size of its framebuffer (the drawable area,
  in pixels) and its framebuffer-size callback. The program registers one function only,
  \<^verbatim>\<open>framebuffer_size_callback\<close>, so \<open>size_callback\<close> is \<open>None\<close> while nothing is
  registered and afterwards \<open>Some\<close> of the window it was registered on.
\<close>

record window =
  should_close :: bool
  fb_size :: "int \<times> int"
  size_callback :: "handle option"

text \<open>
  \<open>viewport\<close> and \<open>clear_color\<close> are the two pieces of OpenGL state the program sets:
  the rectangle of the last \<^verbatim>\<open>glViewport\<close> call and the colour of the last
  \<^verbatim>\<open>glClearColor\<close> call. \<open>None\<close> is the value the driver chose, which the program
  never reads. What the driver does with the arguments (validation, clamping to its
  limits) is outside the program.
\<close>

record world =
  trace :: "call list"
  win :: window
  viewport :: "(int \<times> int \<times> int \<times> int) option"
  clear_color :: "(real \<times> real \<times> real \<times> real) option"

definition start :: world where
  "start = \<lparr>trace = [],
            win = \<lparr>should_close = False, fb_size = (0, 0), size_callback = None\<rparr>,
            viewport = None, clear_color = None\<rparr>"

definition log_call :: "call \<Rightarrow> world \<Rightarrow> world" where
  "log_call c s = s\<lparr>trace := trace s @ [c]\<rparr>"

subsection \<open>The library functions\<close>

text \<open>
  Each is what the GLFW and OpenGL documentation says of the call, restricted to the state
  above. A function that returns a value to the program returns it paired with the world.
\<close>

definition glfwInit :: "env \<Rightarrow> world \<Rightarrow> bool \<times> world" where
  "glfwInit e s = (init_result e, log_call GlfwInit s)"

definition glfwWindowHint :: "hint \<Rightarrow> hint_value \<Rightarrow> world \<Rightarrow> world" where
  "glfwWindowHint h v s = log_call (GlfwWindowHint h v) s"

text \<open>A window that has just been created is open and has no callback.\<close>

definition glfwCreateWindow ::
  "env \<Rightarrow> int \<Rightarrow> int \<Rightarrow> string \<Rightarrow> handle option \<Rightarrow> handle option \<Rightarrow> world
    \<Rightarrow> handle option \<times> world" where
  "glfwCreateWindow e width height title monitor share s =
     (let s' = log_call (GlfwCreateWindow width height title monitor share) s in
      case created_window e of
        None \<Rightarrow> (None, s')
      | Some w \<Rightarrow>
          (Some w, s'\<lparr>win := \<lparr>should_close = False, fb_size = created_fb_size e,
                             size_callback = None\<rparr>\<rparr>))"

definition glfwTerminate :: "world \<Rightarrow> world" where
  "glfwTerminate s = log_call GlfwTerminate s"

definition glfwMakeContextCurrent :: "handle \<Rightarrow> world \<Rightarrow> world" where
  "glfwMakeContextCurrent window s = log_call (GlfwMakeContextCurrent window) s"

definition gladLoadGLLoader :: "env \<Rightarrow> world \<Rightarrow> int \<times> world" where
  "gladLoadGLLoader e s = (glad_result e, log_call GladLoadGLLoader s)"

definition glViewport :: "int \<Rightarrow> int \<Rightarrow> int \<Rightarrow> int \<Rightarrow> world \<Rightarrow> world" where
  "glViewport x y width height s =
     (log_call (GlViewport x y width height) s)\<lparr>viewport := Some (x, y, width, height)\<rparr>"

definition glfwSetFramebufferSizeCallback :: "handle \<Rightarrow> world \<Rightarrow> world" where
  "glfwSetFramebufferSizeCallback window s =
     (log_call (GlfwSetFramebufferSizeCallback window) s)
       \<lparr>win := (win s)\<lparr>size_callback := Some window\<rparr>\<rparr>"

definition glfwWindowShouldClose :: "handle \<Rightarrow> world \<Rightarrow> bool \<times> world" where
  "glfwWindowShouldClose window s =
     (should_close (win s), log_call (GlfwWindowShouldClose window) s)"

definition glfwGetKey :: "frame \<Rightarrow> handle \<Rightarrow> key \<Rightarrow> world \<Rightarrow> key_action \<times> world" where
  "glfwGetKey f window k s = (escape f, log_call (GlfwGetKey window k) s)"

definition glfwSetWindowShouldClose :: "handle \<Rightarrow> bool \<Rightarrow> world \<Rightarrow> world" where
  "glfwSetWindowShouldClose window v s =
     (log_call (GlfwSetWindowShouldClose window v) s)\<lparr>win := (win s)\<lparr>should_close := v\<rparr>\<rparr>"

definition glClearColor :: "real \<Rightarrow> real \<Rightarrow> real \<Rightarrow> real \<Rightarrow> world \<Rightarrow> world" where
  "glClearColor r g b a s =
     (log_call (GlClearColor r g b a) s)\<lparr>clear_color := Some (r, g, b, a)\<rparr>"

definition glClear :: "buffer_bit set \<Rightarrow> world \<Rightarrow> world" where
  "glClear bits s = log_call (GlClear bits) s"

definition glfwSwapBuffers :: "handle \<Rightarrow> world \<Rightarrow> world" where
  "glfwSwapBuffers window s = log_call (GlfwSwapBuffers window) s"

subsection \<open>The program\<close>

text \<open>\<^verbatim>\<open>framebuffer_size_callback\<close>, lines 132 to 134.\<close>

definition framebuffer_size_callback :: "handle \<Rightarrow> int \<Rightarrow> int \<Rightarrow> world \<Rightarrow> world" where
  "framebuffer_size_callback window width height s = glViewport 0 0 width height s"

text \<open>
  \<^verbatim>\<open>glfwPollEvents\<close> processes the pending events in order. A resize records the new
  framebuffer size and calls the registered framebuffer-size callback, if there is one,
  with the window and the new size, before the next event; a close request sets the
  close-requested flag.
\<close>

fun dispatch :: "world \<Rightarrow> event \<Rightarrow> world" where
  "dispatch s (FramebufferResize w h) =
     (let s' = s\<lparr>win := (win s)\<lparr>fb_size := (w, h)\<rparr>\<rparr> in
      case size_callback (win s') of
        None \<Rightarrow> s'
      | Some window \<Rightarrow> framebuffer_size_callback window w h s')"
| "dispatch s CloseRequest = s\<lparr>win := (win s)\<lparr>should_close := True\<rparr>\<rparr>"

definition glfwPollEvents :: "frame \<Rightarrow> world \<Rightarrow> world" where
  "glfwPollEvents f s = foldl dispatch (log_call GlfwPollEvents s) (events f)"

text \<open>\<^verbatim>\<open>processInput\<close>, lines 139 to 145.\<close>

definition processInput :: "frame \<Rightarrow> handle \<Rightarrow> world \<Rightarrow> world" where
  "processInput f window s =
     (let (k, s1) = glfwGetKey f window GLFW_KEY_ESCAPE s in
      if k = GLFW_PRESS then glfwSetWindowShouldClose window True s1 else s1)"

text \<open>The body of the render loop, lines 92 to 122.\<close>

definition loop_body :: "frame \<Rightarrow> handle \<Rightarrow> world \<Rightarrow> world" where
  "loop_body f window s =
     (let s1 = processInput f window s;
          s2 = glClearColor 0.5 0.2 0.3 1.0 s1;
          s3 = glClear ({GL_COLOR_BUFFER_BIT} \<union> {GL_DEPTH_BUFFER_BIT}) s2;
          s4 = glfwSwapBuffers window s3
      in glfwPollEvents f s4)"

text \<open>
  The render loop, line 89: \<^verbatim>\<open>while(!glfwWindowShouldClose(window)) { ... }\<close>. The
  recursion is on the frames the environment supplies; \<open>None\<close> means that the window was
  still open when they ran out, so the loop has not ended.
\<close>

fun render_loop :: "frame list \<Rightarrow> handle \<Rightarrow> world \<Rightarrow> world option" where
  "render_loop [] window s =
     (let (c, s1) = glfwWindowShouldClose window s in
      if \<not> c then None else Some s1)"
| "render_loop (f # fs) window s =
     (let (c, s1) = glfwWindowShouldClose window s in
      if \<not> c then render_loop fs window (loop_body f window s1) else Some s1)"

text \<open>
  Lines 29 to 81 of \<^verbatim>\<open>main\<close>, up to the render loop. The result is \<open>Inl\<close> of the value
  of an early \<^verbatim>\<open>return\<close>, or \<open>Inr\<close> of the window with which the loop is entered.
\<close>

definition bootstrap :: "env \<Rightarrow> (int + handle) \<times> world" where
  "bootstrap e =
     (let (_, s1) = glfwInit e start;
          s2 = glfwWindowHint GLFW_CONTEXT_VERSION_MAJOR (Int_value 3) s1;
          s3 = glfwWindowHint GLFW_CONTEXT_VERSION_MINOR (Int_value 3) s2;
          s4 = glfwWindowHint GLFW_OPENGL_PROFILE GLFW_OPENGL_CORE_PROFILE s3;
          s5 = glfwWindowHint GLFW_OPENGL_FORWARD_COMPAT GL_TRUE s4;
          width = 800;
          height = 600;
          (window, s6) = glfwCreateWindow e width height ''OpenGL Window'' None None s5
      in case window of
           None \<Rightarrow>
             (let s7 = log_call (Cout ''Window Creation Failed\<newline>'') s6;
                  s8 = glfwTerminate s7
              in (Inl (- 1), s8))
         | Some window \<Rightarrow>
             (let s7 = glfwMakeContextCurrent window s6;
                  (loaded, s8) = gladLoadGLLoader e s7
              in if loaded = 0
                 then (let s9 = log_call (Cout ''Failed to initialized GLAD\<newline>'') s8
                       in (Inl (- 1), s9))
                 else (let s9 = glViewport 0 0 width height s8;
                           s10 = glfwSetFramebufferSizeCallback window s9
                       in (Inr window, s10))))"

text \<open>
  \<^verbatim>\<open>main\<close>: the exit code and the final world, or \<open>None\<close> when the render loop has not
  ended on the frames supplied.
\<close>

definition main :: "env \<Rightarrow> (int \<times> world) option" where
  "main e =
     (case bootstrap e of
        (Inl code, s) \<Rightarrow> Some (code, s)
      | (Inr window, s) \<Rightarrow>
          (case render_loop (frames e) window s of
             None \<Rightarrow> None
           | Some s' \<Rightarrow> Some (0, glfwTerminate s')))"

text \<open>The strings written to \<^verbatim>\<open>std::cout\<close>, in order.\<close>

fun printed :: "call list \<Rightarrow> string list" where
  "printed [] = []"
| "printed (Cout str # cs) = str # printed cs"
| "printed (c # cs) = printed cs"

text \<open>
  The calls that \<^verbatim>\<open>framebuffer_size_callback\<close> makes when it is run once for each resize
  among the events, in order: used to state what a pass of the loop adds to the trace.
\<close>

fun callback_calls :: "event list \<Rightarrow> call list" where
  "callback_calls [] = []"
| "callback_calls (FramebufferResize w h # evs) = GlViewport 0 0 w h # callback_calls evs"
| "callback_calls (CloseRequest # evs) = callback_calls evs"

text \<open>
  The calls that only the render loop makes: the test of its condition and the calls of
  its body. A trace without any of them records no pass of the loop.
\<close>

fun loop_call :: "call \<Rightarrow> bool" where
  "loop_call (GlfwWindowShouldClose _) = True"
| "loop_call (GlfwGetKey _ _) = True"
| "loop_call (GlfwSetWindowShouldClose _ _) = True"
| "loop_call (GlClearColor _ _ _ _) = True"
| "loop_call (GlClear _) = True"
| "loop_call (GlfwSwapBuffers _) = True"
| "loop_call GlfwPollEvents = True"
| "loop_call _ = False"

text \<open>
  The viewport has origin \<open>(0, 0)\<close> and the extent of the window's framebuffer.
\<close>

definition viewport_matches_window :: "world \<Rightarrow> bool" where
  "viewport_matches_window s =
     (viewport s = Some (0, 0, fst (fb_size (win s)), snd (fb_size (win s))))"

text \<open>
  What GLFW guarantees of an environment: while the library is not initialized,
  \<^verbatim>\<open>glfwCreateWindow\<close> fails (error \<^verbatim>\<open>GLFW_NOT_INITIALIZED\<close>) and returns a null handle.
  The program's own definitions above do not depend on it; it is a premise only where a
  statement is about runs that GLFW can produce.
\<close>

definition glfw_requires_init :: "env \<Rightarrow> bool" where
  "glfw_requires_init e = (\<not> init_result e \<longrightarrow> created_window e = None)"

section \<open>Auxiliary facts\<close>

lemmas lib_defs =
  glfwInit_def glfwWindowHint_def glfwCreateWindow_def glfwTerminate_def
  glfwMakeContextCurrent_def gladLoadGLLoader_def glViewport_def
  glfwSetFramebufferSizeCallback_def glfwWindowShouldClose_def glfwGetKey_def
  glfwSetWindowShouldClose_def glClearColor_def glClear_def glfwSwapBuffers_def log_call_def


lemma bootstrap_null:
  "created_window e = None \<Longrightarrow>
   bootstrap e =
     (Inl (- 1),
      start\<lparr>trace :=
        [GlfwInit,
         GlfwWindowHint GLFW_CONTEXT_VERSION_MAJOR (Int_value 3),
         GlfwWindowHint GLFW_CONTEXT_VERSION_MINOR (Int_value 3),
         GlfwWindowHint GLFW_OPENGL_PROFILE GLFW_OPENGL_CORE_PROFILE,
         GlfwWindowHint GLFW_OPENGL_FORWARD_COMPAT GL_TRUE,
         GlfwCreateWindow 800 600 ''OpenGL Window'' None None,
         Cout ''Window Creation Failed\<newline>'',
         GlfwTerminate]\<rparr>)"
  by (simp add: bootstrap_def lib_defs start_def)

lemma bootstrap_glad_fail:
  "created_window e = Some w \<Longrightarrow> glad_result e = 0 \<Longrightarrow>
   bootstrap e =
     (Inl (- 1),
      \<lparr>trace =
        [GlfwInit,
         GlfwWindowHint GLFW_CONTEXT_VERSION_MAJOR (Int_value 3),
         GlfwWindowHint GLFW_CONTEXT_VERSION_MINOR (Int_value 3),
         GlfwWindowHint GLFW_OPENGL_PROFILE GLFW_OPENGL_CORE_PROFILE,
         GlfwWindowHint GLFW_OPENGL_FORWARD_COMPAT GL_TRUE,
         GlfwCreateWindow 800 600 ''OpenGL Window'' None None,
         GlfwMakeContextCurrent w,
         GladLoadGLLoader,
         Cout ''Failed to initialized GLAD\<newline>''],
       win = \<lparr>should_close = False, fb_size = created_fb_size e, size_callback = None\<rparr>,
       viewport = None, clear_color = None\<rparr>)"
  by (simp add: bootstrap_def lib_defs start_def)

lemma bootstrap_ok:
  "created_window e = Some w \<Longrightarrow> glad_result e \<noteq> 0 \<Longrightarrow>
   bootstrap e =
     (Inr w,
      \<lparr>trace =
        [GlfwInit,
         GlfwWindowHint GLFW_CONTEXT_VERSION_MAJOR (Int_value 3),
         GlfwWindowHint GLFW_CONTEXT_VERSION_MINOR (Int_value 3),
         GlfwWindowHint GLFW_OPENGL_PROFILE GLFW_OPENGL_CORE_PROFILE,
         GlfwWindowHint GLFW_OPENGL_FORWARD_COMPAT GL_TRUE,
         GlfwCreateWindow 800 600 ''OpenGL Window'' None None,
         GlfwMakeContextCurrent w,
         GladLoadGLLoader,
         GlViewport 0 0 800 600,
         GlfwSetFramebufferSizeCallback w],
       win = \<lparr>should_close = False, fb_size = created_fb_size e, size_callback = Some w\<rparr>,
       viewport = Some (0, 0, 800, 600), clear_color = None\<rparr>)"
  by (simp add: bootstrap_def lib_defs start_def)

lemma processInput_eq:
  "processInput f window s =
     (if escape f = GLFW_PRESS
      then s\<lparr>trace := trace s @ [GlfwGetKey window GLFW_KEY_ESCAPE,
                                   GlfwSetWindowShouldClose window True],
             win := (win s)\<lparr>should_close := True\<rparr>\<rparr>
      else s\<lparr>trace := trace s @ [GlfwGetKey window GLFW_KEY_ESCAPE]\<rparr>)"
  by (simp add: processInput_def lib_defs)

lemma dispatch_should_close:
  "should_close (win (dispatch s ev)) = (should_close (win s) \<or> ev = CloseRequest)"
  by (cases ev) (simp_all add: Let_def framebuffer_size_callback_def lib_defs split: option.splits)

lemma dispatch_size_callback: "size_callback (win (dispatch s ev)) = size_callback (win s)"
  by (cases ev) (simp_all add: Let_def framebuffer_size_callback_def lib_defs split: option.splits)

lemma dispatch_clear_color: "clear_color (dispatch s ev) = clear_color s"
  by (cases ev) (simp_all add: Let_def framebuffer_size_callback_def lib_defs split: option.splits)

lemma foldl_dispatch_should_close:
  "should_close (win (foldl dispatch s evs)) = (should_close (win s) \<or> CloseRequest \<in> set evs)"
  by (induction evs arbitrary: s) (auto simp: dispatch_should_close)

lemma foldl_dispatch_size_callback:
  "size_callback (win (foldl dispatch s evs)) = size_callback (win s)"
  by (induction evs arbitrary: s) (simp_all add: dispatch_size_callback)

lemma foldl_dispatch_clear_color: "clear_color (foldl dispatch s evs) = clear_color s"
  by (induction evs arbitrary: s) (simp_all add: dispatch_clear_color)

lemma dispatch_trace:
  "trace (dispatch s ev) =
     trace s @ (case size_callback (win s) of None \<Rightarrow> [] | Some _ \<Rightarrow> callback_calls [ev])"
  by (cases ev) (simp_all add: Let_def framebuffer_size_callback_def lib_defs split: option.splits)

lemma foldl_dispatch_trace:
  "trace (foldl dispatch s evs) =
     trace s @ (case size_callback (win s) of None \<Rightarrow> [] | Some _ \<Rightarrow> callback_calls evs)"
proof (induction evs arbitrary: s)
  case Nil
  show ?case by (simp split: option.splits)
next
  case (Cons ev evs)
  have "callback_calls (ev # evs) = callback_calls [ev] @ callback_calls evs"
    by (cases ev) simp_all
  then show ?case
    by (simp add: Cons.IH dispatch_size_callback dispatch_trace
        del: dispatch.simps callback_calls.simps split: option.splits)
qed

lemma loop_body_trace:
  "trace (loop_body f window s) =
     trace s
     @ [GlfwGetKey window GLFW_KEY_ESCAPE]
     @ (if escape f = GLFW_PRESS then [GlfwSetWindowShouldClose window True] else [])
     @ [GlClearColor 0.5 0.2 0.3 1.0,
        GlClear {GL_COLOR_BUFFER_BIT, GL_DEPTH_BUFFER_BIT},
        GlfwSwapBuffers window,
        GlfwPollEvents]
     @ (case size_callback (win s) of None \<Rightarrow> [] | Some _ \<Rightarrow> callback_calls (events f))"
  by (simp add: loop_body_def processInput_eq glfwPollEvents_def foldl_dispatch_trace lib_defs
      insert_commute)

lemma loop_body_should_close:
  "should_close (win (loop_body f window s)) =
     (should_close (win s) \<or> escape f = GLFW_PRESS \<or> CloseRequest \<in> set (events f))"
  by (auto simp add: loop_body_def processInput_eq glfwPollEvents_def foldl_dispatch_should_close lib_defs)

lemma loop_body_clear_color:
  "clear_color (loop_body f window s) = Some (0.5, 0.2, 0.3, 1.0)"
  by (simp add: loop_body_def processInput_eq glfwPollEvents_def foldl_dispatch_clear_color lib_defs)

lemma render_loop_closed:
  "should_close (win s) \<Longrightarrow>
   render_loop fs window s = Some (log_call (GlfwWindowShouldClose window) s)"
  by (cases fs) (simp_all add: glfwWindowShouldClose_def)

lemma render_loop_out_of_frames:
  "\<not> should_close (win s) \<Longrightarrow> render_loop [] window s = None"
  by (simp add: glfwWindowShouldClose_def)

lemma render_loop_open:
  "\<not> should_close (win s) \<Longrightarrow>
   render_loop (f # fs) window s =
     render_loop fs window (loop_body f window (log_call (GlfwWindowShouldClose window) s))"
  by (simp add: glfwWindowShouldClose_def)

declare render_loop.simps [simp del]

lemma win_log_call: "win (log_call c s) = win s"
  by (simp add: log_call_def)

lemma trace_log_call: "trace (log_call c s) = trace s @ [c]"
  by (simp add: log_call_def)

lemma render_loop_returns:
  "\<exists>f \<in> set fs. escape f = GLFW_PRESS \<or> CloseRequest \<in> set (events f) \<Longrightarrow>
   \<exists>s'. render_loop fs window s = Some s'"
proof (induction fs arbitrary: s)
  case Nil
  then show ?case by simp
next
  case (Cons f fs)
  show ?case
  proof (cases "should_close (win s)")
    case True
    then show ?thesis by (simp add: render_loop_closed)
  next
    case False
    let ?s = "loop_body f window (log_call (GlfwWindowShouldClose window) s)"
    show ?thesis
    proof (cases "escape f = GLFW_PRESS \<or> CloseRequest \<in> set (events f)")
      case True
      then have "should_close (win ?s)" by (simp add: loop_body_should_close)
      then show ?thesis using False by (simp add: render_loop_open render_loop_closed)
    next
      case no: False
      with Cons.prems have "\<exists>f \<in> set fs. escape f = GLFW_PRESS \<or> CloseRequest \<in> set (events f)"
        by auto
      from Cons.IH [OF this] show ?thesis using False by (simp add: render_loop_open)
    qed
  qed
qed

lemma callback_calls_no_terminate: "count_list (callback_calls evs) GlfwTerminate = 0"
  by (induction evs rule: callback_calls.induct) simp_all

lemma loop_body_terminate_count:
  "count_list (trace (loop_body f window s)) GlfwTerminate = count_list (trace s) GlfwTerminate"
  by (simp add: loop_body_trace callback_calls_no_terminate split: option.splits)

lemma render_loop_terminate_count:
  "render_loop fs window s = Some s' \<Longrightarrow>
   count_list (trace s') GlfwTerminate = count_list (trace s) GlfwTerminate"
proof (induction fs arbitrary: s)
  case Nil
  then show ?case
    by (auto simp: render_loop.simps glfwWindowShouldClose_def log_call_def split: if_splits)
next
  case (Cons f fs)
  show ?case
  proof (cases "should_close (win s)")
    case True
    with Cons.prems show ?thesis by (auto simp: render_loop_closed log_call_def)
  next
    case False
    with Cons.prems Cons.IH show ?thesis
      by (simp add: render_loop_open loop_body_terminate_count trace_log_call)
  qed
qed

lemma dispatch_resize:
  "size_callback (win s) = Some window \<Longrightarrow>
   dispatch s (FramebufferResize w h) =
     s\<lparr>trace := trace s @ [GlViewport 0 0 w h],
       win := (win s)\<lparr>fb_size := (w, h)\<rparr>,
       viewport := Some (0, 0, w, h)\<rparr>"
  by (simp add: Let_def framebuffer_size_callback_def lib_defs)

declare dispatch.simps(1) [simp del]

lemma dispatch_matches:
  "size_callback (win s) = Some window \<Longrightarrow>
   viewport_matches_window s \<or> (\<exists>w h. ev = FramebufferResize w h) \<Longrightarrow>
   viewport_matches_window (dispatch s ev)"
  by (cases ev) (auto simp: dispatch_resize viewport_matches_window_def)

lemma foldl_dispatch_matches:
  "size_callback (win s) = Some window \<Longrightarrow>
   viewport_matches_window s \<or> (\<exists>w h. FramebufferResize w h \<in> set evs) \<Longrightarrow>
   viewport_matches_window (foldl dispatch s evs)"
proof (induction evs arbitrary: s)
  case Nil
  then show ?case by simp
next
  case (Cons ev evs)
  have registered: "size_callback (win (dispatch s ev)) = Some window"
    using Cons.prems(1) by (simp add: dispatch_size_callback)
  show ?case
  proof (cases "viewport_matches_window s \<or> (\<exists>w h. ev = FramebufferResize w h)")
    case True
    with Cons.prems(1) have "viewport_matches_window (dispatch s ev)"
      by (rule dispatch_matches)
    with Cons.IH [OF registered] show ?thesis
      by (simp del: dispatch.simps)
  next
    case False
    with Cons.prems(2) have "\<exists>w h. FramebufferResize w h \<in> set evs"
      by auto
    with Cons.IH [OF registered] show ?thesis
      by (simp del: dispatch.simps)
  qed
qed

lemma render_loop_last_pass:
  "\<not> should_close (win s) \<Longrightarrow>
   escape f = GLFW_PRESS \<or> CloseRequest \<in> set (events f) \<Longrightarrow>
   render_loop (f # fs) window s =
     Some (log_call (GlfwWindowShouldClose window)
            (loop_body f window (log_call (GlfwWindowShouldClose window) s)))"
  by (simp add: render_loop_open render_loop_closed loop_body_should_close)

lemma render_loop_ignores_rest:
  "escape f = GLFW_PRESS \<or> CloseRequest \<in> set (events f) \<Longrightarrow>
   \<exists>s'. render_loop (pre @ f # fs) window s = Some s'
      \<and> render_loop (pre @ [f]) window s = Some s'"
proof (induction pre arbitrary: s)
  case Nil
  then show ?case
    by (cases "should_close (win s)") (simp_all add: render_loop_closed render_loop_last_pass)
next
  case (Cons g pre)
  show ?case
  proof (cases "should_close (win s)")
    case True
    then show ?thesis by (simp add: render_loop_closed)
  next
    case False
    with Cons.IH [OF Cons.prems] show ?thesis
      by (simp add: render_loop_open)
  qed
qed

lemma foldl_loop_body_should_close:
  "should_close (win s) \<Longrightarrow>
   should_close (win (foldl (\<lambda>s f. loop_body f window s) s fs))"
  by (induction fs arbitrary: s) (simp_all add: loop_body_should_close)

section \<open>The claims\<close>

text \<open>
  Claim C1, as amended. When \<^verbatim>\<open>glfwCreateWindow\<close> returns a null handle, \<^verbatim>\<open>main\<close>
  returns \<open>-1\<close>, the one line it prints is written directly after the call that failed,
  and the library teardown \<^verbatim>\<open>glfwTerminate\<close> is called once, after the line, before the
  return. When \<^verbatim>\<open>gladLoadGLLoader\<close> returns \<open>0\<close>, \<^verbatim>\<open>main\<close> returns \<open>-1\<close>, the one line
  it prints is written directly after the call that failed, and \<^verbatim>\<open>glfwTerminate\<close> is not
  called.
\<close>

theorem failure_paths:
  "(created_window e = None \<longrightarrow>
      (\<exists>s. main e = Some (- 1, s)
         \<and> trace s =
             [GlfwInit,
              GlfwWindowHint GLFW_CONTEXT_VERSION_MAJOR (Int_value 3),
              GlfwWindowHint GLFW_CONTEXT_VERSION_MINOR (Int_value 3),
              GlfwWindowHint GLFW_OPENGL_PROFILE GLFW_OPENGL_CORE_PROFILE,
              GlfwWindowHint GLFW_OPENGL_FORWARD_COMPAT GL_TRUE,
              GlfwCreateWindow 800 600 ''OpenGL Window'' None None,
              Cout ''Window Creation Failed\<newline>'',
              GlfwTerminate]
         \<and> count_list (trace s) GlfwTerminate = 1
         \<and> length (printed (trace s)) = 1))
   \<and> (created_window e = Some w \<and> glad_result e = 0 \<longrightarrow>
      (\<exists>s. main e = Some (- 1, s)
         \<and> trace s =
             [GlfwInit,
              GlfwWindowHint GLFW_CONTEXT_VERSION_MAJOR (Int_value 3),
              GlfwWindowHint GLFW_CONTEXT_VERSION_MINOR (Int_value 3),
              GlfwWindowHint GLFW_OPENGL_PROFILE GLFW_OPENGL_CORE_PROFILE,
              GlfwWindowHint GLFW_OPENGL_FORWARD_COMPAT GL_TRUE,
              GlfwCreateWindow 800 600 ''OpenGL Window'' None None,
              GlfwMakeContextCurrent w,
              GladLoadGLLoader,
              Cout ''Failed to initialized GLAD\<newline>'']
         \<and> count_list (trace s) GlfwTerminate = 0
         \<and> length (printed (trace s)) = 1))"
  by (simp add: main_def bootstrap_null bootstrap_glad_fail start_def)

theorem failure_paths_witness:
  "(\<exists>s. main \<lparr>init_result = True, created_window = None, created_fb_size = (0, 0),
               glad_result = 1, frames = []\<rparr> = Some (- 1, s)
       \<and> count_list (trace s) GlfwTerminate = 1
       \<and> length (printed (trace s)) = 1)
   \<and> (\<exists>s. main \<lparr>init_result = True, created_window = Some 7, created_fb_size = (800, 600),
                 glad_result = 0, frames = []\<rparr> = Some (- 1, s)
       \<and> count_list (trace s) GlfwTerminate = 0
       \<and> length (printed (trace s)) = 1)"
  using
    failure_paths
      [of "\<lparr>init_result = True, created_window = None, created_fb_size = (0, 0),
            glad_result = 1, frames = []\<rparr>" 7]
    failure_paths
      [of "\<lparr>init_result = True, created_window = Some 7, created_fb_size = (800, 600),
            glad_result = 0, frames = []\<rparr>" 7]
  by auto

text \<open>
  The claim as it is written says that the creation-failure path returns without the
  teardown. Line 50 of \<^verbatim>\<open>main.cpp\<close> calls \<^verbatim>\<open>glfwTerminate()\<close> on that path: with a null
  handle the trace ends with the teardown.
\<close>

theorem creation_failure_teardown_counterexample:
  "created_window \<lparr>init_result = True, created_window = None, created_fb_size = (0, 0),
                   glad_result = 1, frames = []\<rparr> = None
   \<and> main \<lparr>init_result = True, created_window = None, created_fb_size = (0, 0),
             glad_result = 1, frames = []\<rparr>
       = Some (- 1,
           \<lparr>trace =
              [GlfwInit,
               GlfwWindowHint GLFW_CONTEXT_VERSION_MAJOR (Int_value 3),
               GlfwWindowHint GLFW_CONTEXT_VERSION_MINOR (Int_value 3),
               GlfwWindowHint GLFW_OPENGL_PROFILE GLFW_OPENGL_CORE_PROFILE,
               GlfwWindowHint GLFW_OPENGL_FORWARD_COMPAT GL_TRUE,
               GlfwCreateWindow 800 600 ''OpenGL Window'' None None,
               Cout ''Window Creation Failed\<newline>'',
               GlfwTerminate],
            win = \<lparr>should_close = False, fb_size = (0, 0), size_callback = None\<rparr>,
            viewport = None, clear_color = None\<rparr>)
   \<and> count_list
         (trace (snd (the (main \<lparr>init_result = True, created_window = None,
                                  created_fb_size = (0, 0), glad_result = 1, frames = []\<rparr>))))
         GlfwTerminate = 1"
  by (simp add: main_def bootstrap_null start_def)

text \<open>
  Claim C2, as amended. If the initialization of the windowing library fails, the process
  fails: it prints a message (\<^verbatim>\<open>Window Creation Failed\<close>) and exits with the nonzero code
  \<open>-1\<close>. It does so not at the initialization call, whose result \<^verbatim>\<open>main\<close> never tests
  (the run is the same as with a successful result), but after it has gone on to set the
  four hints and to call \<^verbatim>\<open>glfwCreateWindow\<close>, which returns a null handle because the
  library is not initialized.
\<close>

theorem init_failure_not_detected:
  "glfw_requires_init e \<Longrightarrow> \<not> init_result e \<Longrightarrow>
   (\<exists>s. main e = Some (- 1, s)
      \<and> printed (trace s) = [''Window Creation Failed\<newline>'']
      \<and> trace s =
          [GlfwInit,
           GlfwWindowHint GLFW_CONTEXT_VERSION_MAJOR (Int_value 3),
           GlfwWindowHint GLFW_CONTEXT_VERSION_MINOR (Int_value 3),
           GlfwWindowHint GLFW_OPENGL_PROFILE GLFW_OPENGL_CORE_PROFILE,
           GlfwWindowHint GLFW_OPENGL_FORWARD_COMPAT GL_TRUE,
           GlfwCreateWindow 800 600 ''OpenGL Window'' None None,
           Cout ''Window Creation Failed\<newline>'',
           GlfwTerminate])
   \<and> main e = main (e\<lparr>init_result := True\<rparr>)"
proof (intro conjI)
  assume "glfw_requires_init e" and "\<not> init_result e"
  then have null: "created_window e = None"
    by (simp add: glfw_requires_init_def)
  show "\<exists>s. main e = Some (- 1, s)
      \<and> printed (trace s) = [''Window Creation Failed\<newline>'']
      \<and> trace s =
          [GlfwInit,
           GlfwWindowHint GLFW_CONTEXT_VERSION_MAJOR (Int_value 3),
           GlfwWindowHint GLFW_CONTEXT_VERSION_MINOR (Int_value 3),
           GlfwWindowHint GLFW_OPENGL_PROFILE GLFW_OPENGL_CORE_PROFILE,
           GlfwWindowHint GLFW_OPENGL_FORWARD_COMPAT GL_TRUE,
           GlfwCreateWindow 800 600 ''OpenGL Window'' None None,
           Cout ''Window Creation Failed\<newline>'',
           GlfwTerminate]"
    by (simp add: main_def bootstrap_null [OF null] start_def)
next
  have "bootstrap (e\<lparr>init_result := True\<rparr>) = bootstrap e"
  proof (cases "created_window e")
    case None
    then show ?thesis by (simp add: bootstrap_null)
  next
    case (Some w)
    then show ?thesis
      by (cases "glad_result e = 0") (simp_all add: bootstrap_glad_fail bootstrap_ok)
  qed
  then show "main e = main (e\<lparr>init_result := True\<rparr>)"
    by (simp add: main_def split: prod.splits sum.splits)
qed

theorem init_failure_not_detected_witness:
  "glfw_requires_init \<lparr>init_result = False, created_window = None, created_fb_size = (0, 0),
                       glad_result = 1, frames = []\<rparr>
   \<and> \<not> init_result \<lparr>init_result = False, created_window = None, created_fb_size = (0, 0),
                      glad_result = 1, frames = []\<rparr>
   \<and> (\<exists>s. main \<lparr>init_result = False, created_window = None, created_fb_size = (0, 0),
                 glad_result = 1, frames = []\<rparr> = Some (- 1, s)
          \<and> printed (trace s) = [''Window Creation Failed\<newline>''])"
proof -
  let ?e = "\<lparr>init_result = False, created_window = None, created_fb_size = (0, 0),
            glad_result = 1, frames = []\<rparr>"
  have coupled: "glfw_requires_init ?e"
    by (simp add: glfw_requires_init_def)
  have failed: "\<not> init_result ?e"
    by simp
  from init_failure_not_detected [OF coupled failed] coupled failed show ?thesis
    by blast
qed

text \<open>
  The claim as it is written says that after a failed initialization the program does not
  go on to the hints and the window creation. With \<^verbatim>\<open>glfwInit\<close> failing, and the window
  creation failing after it as GLFW does when it is not initialized, the trace has the
  four \<^verbatim>\<open>glfwWindowHint\<close> calls and the \<^verbatim>\<open>glfwCreateWindow\<close> call after \<^verbatim>\<open>glfwInit\<close>. The
  process still prints its message and returns \<open>-1\<close> there: only that part of the claim
  fails.
\<close>

theorem init_failure_counterexample:
  "init_result \<lparr>init_result = False, created_window = None, created_fb_size = (0, 0),
                glad_result = 0, frames = []\<rparr> = False
   \<and> glfw_requires_init \<lparr>init_result = False, created_window = None,
                           created_fb_size = (0, 0), glad_result = 0, frames = []\<rparr>
   \<and> main \<lparr>init_result = False, created_window = None, created_fb_size = (0, 0),
             glad_result = 0, frames = []\<rparr>
       = Some (- 1,
           \<lparr>trace =
              [GlfwInit,
               GlfwWindowHint GLFW_CONTEXT_VERSION_MAJOR (Int_value 3),
               GlfwWindowHint GLFW_CONTEXT_VERSION_MINOR (Int_value 3),
               GlfwWindowHint GLFW_OPENGL_PROFILE GLFW_OPENGL_CORE_PROFILE,
               GlfwWindowHint GLFW_OPENGL_FORWARD_COMPAT GL_TRUE,
               GlfwCreateWindow 800 600 ''OpenGL Window'' None None,
               Cout ''Window Creation Failed\<newline>'',
               GlfwTerminate],
            win = \<lparr>should_close = False, fb_size = (0, 0), size_callback = None\<rparr>,
            viewport = None, clear_color = None\<rparr>)
   \<and> GlfwCreateWindow 800 600 ''OpenGL Window'' None None
       \<in> set (trace (snd (the (main \<lparr>init_result = False, created_window = None,
                                        created_fb_size = (0, 0), glad_result = 0,
                                        frames = []\<rparr>))))"
  by (simp add: main_def bootstrap_null start_def glfw_requires_init_def)

text \<open>
  Claim C3. For every width \<open>w\<close> and height \<open>h\<close> (so also for \<open>w, h \<ge> 0\<close>), after
  \<^verbatim>\<open>framebuffer_size_callback\<close> has run the viewport is \<open>(0, 0, w, h)\<close>; running it a
  second time with the same size leaves the viewport as it is. With the callback
  registered, a resize event dispatched by \<^verbatim>\<open>glfwPollEvents\<close> leaves the viewport at
  \<open>(0, 0, w, h)\<close> and the framebuffer size at \<open>(w, h)\<close>, and after a poll that processed
  a resize the viewport has the extent of the window's framebuffer.
\<close>

theorem viewport_synchronizer:
  "viewport (framebuffer_size_callback window w h s) = Some (0, 0, w, h)
   \<and> viewport (framebuffer_size_callback window w h (framebuffer_size_callback window w h s))
       = viewport (framebuffer_size_callback window w h s)
   \<and> (size_callback (win s) = Some window \<longrightarrow>
        viewport (dispatch s (FramebufferResize w h)) = Some (0, 0, w, h)
        \<and> fb_size (win (dispatch s (FramebufferResize w h))) = (w, h))
   \<and> (size_callback (win s) = Some window \<longrightarrow> FramebufferResize w h \<in> set (events f) \<longrightarrow>
        viewport_matches_window (glfwPollEvents f s))"
proof (intro conjI impI)
  show "viewport (framebuffer_size_callback window w h s) = Some (0, 0, w, h)"
    by (simp add: framebuffer_size_callback_def glViewport_def)
  show "viewport (framebuffer_size_callback window w h (framebuffer_size_callback window w h s))
       = viewport (framebuffer_size_callback window w h s)"
    by (simp add: framebuffer_size_callback_def glViewport_def)
next
  assume "size_callback (win s) = Some window"
  then show "viewport (dispatch s (FramebufferResize w h)) = Some (0, 0, w, h)"
    and "fb_size (win (dispatch s (FramebufferResize w h))) = (w, h)"
    by (simp_all add: dispatch_resize)
next
  assume "size_callback (win s) = Some window" and "FramebufferResize w h \<in> set (events f)"
  then show "viewport_matches_window (glfwPollEvents f s)"
    unfolding glfwPollEvents_def
    by (intro foldl_dispatch_matches [where window = window]) (auto simp: win_log_call)
qed

theorem viewport_synchronizer_witness:
  "size_callback (win (start\<lparr>win := (win start)\<lparr>size_callback := Some 1\<rparr>\<rparr>)) = Some 1
   \<and> FramebufferResize 1024 768
        \<in> set (events \<lparr>escape = GLFW_RELEASE,
                        events = [FramebufferResize 640 480, CloseRequest,
                                  FramebufferResize 1024 768]\<rparr>)
   \<and> viewport (dispatch (start\<lparr>win := (win start)\<lparr>size_callback := Some 1\<rparr>\<rparr>)
                 (FramebufferResize 1024 768)) = Some (0, 0, 1024, 768)
   \<and> viewport_matches_window
        (glfwPollEvents \<lparr>escape = GLFW_RELEASE,
                         events = [FramebufferResize 640 480, CloseRequest,
                                   FramebufferResize 1024 768]\<rparr>
           (start\<lparr>win := (win start)\<lparr>size_callback := Some 1\<rparr>\<rparr>))
   \<and> viewport
        (glfwPollEvents \<lparr>escape = GLFW_RELEASE,
                         events = [FramebufferResize 640 480, CloseRequest,
                                   FramebufferResize 1024 768]\<rparr>
           (start\<lparr>win := (win start)\<lparr>size_callback := Some 1\<rparr>\<rparr>))
       = Some (0, 0, 1024, 768)"
  using viewport_synchronizer
    [of 1 1024 768 "start\<lparr>win := (win start)\<lparr>size_callback := Some 1\<rparr>\<rparr>"
        "\<lparr>escape = GLFW_RELEASE,
          events = [FramebufferResize 640 480, CloseRequest, FramebufferResize 1024 768]\<rparr>"]
  by (simp add: start_def glfwPollEvents_def log_call_def dispatch.simps(1) Let_def
      framebuffer_size_callback_def glViewport_def)

text \<open>
  Claim C4. When the window is created and the function table is loaded, the lines before
  the render loop end in a state whose viewport is \<open>(0, 0, 800, 600)\<close>, and the render
  loop of \<^verbatim>\<open>main\<close> starts from that state.
\<close>

theorem viewport_at_loop_entry:
  "created_window e = Some w \<Longrightarrow> glad_result e \<noteq> 0 \<Longrightarrow>
   \<exists>s. bootstrap e = (Inr w, s)
     \<and> viewport s = Some (0, 0, 800, 600)
     \<and> main e = (case render_loop (frames e) w s of
                    None \<Rightarrow> None
                  | Some s' \<Rightarrow> Some (0, glfwTerminate s'))"
  by (simp add: main_def bootstrap_ok)

theorem viewport_at_loop_entry_witness:
  "created_window \<lparr>init_result = True, created_window = Some 1, created_fb_size = (1600, 1200),
                   glad_result = 1, frames = []\<rparr> = Some 1
   \<and> glad_result \<lparr>init_result = True, created_window = Some 1, created_fb_size = (1600, 1200),
                   glad_result = 1, frames = []\<rparr> \<noteq> 0
   \<and> (\<exists>s. bootstrap \<lparr>init_result = True, created_window = Some 1,
                      created_fb_size = (1600, 1200), glad_result = 1, frames = []\<rparr>
            = (Inr 1, s)
        \<and> viewport s = Some (0, 0, 800, 600))"
  using viewport_at_loop_entry
    [of "\<lparr>init_result = True, created_window = Some 1, created_fb_size = (1600, 1200),
          glad_result = 1, frames = []\<rparr>" 1]
  by auto

text \<open>
  Claim C5. While the window is not closing, the loop runs its body on the next frame and
  tests its condition again. The body makes exactly these calls, in this order: the key
  query of \<^verbatim>\<open>processInput\<close>, followed by \<^verbatim>\<open>glfwSetWindowShouldClose(window, true)\<close> when
  Escape is pressed (and only then is the flag set by the input check); \<^verbatim>\<open>glClearColor\<close>
  with \<open>(0.5, 0.2, 0.3, 1.0)\<close>; \<^verbatim>\<open>glClear\<close> of the colour and depth buffers;
  \<^verbatim>\<open>glfwSwapBuffers\<close>; \<^verbatim>\<open>glfwPollEvents\<close>, within which the registered callback runs once
  for each resize event.
\<close>

theorem loop_iteration_steps:
  "\<not> should_close (win s) \<Longrightarrow>
   render_loop (f # fs) window s =
     render_loop fs window (loop_body f window (log_call (GlfwWindowShouldClose window) s))
   \<and> trace (loop_body f window s) =
       trace s
       @ [GlfwGetKey window GLFW_KEY_ESCAPE]
       @ (if escape f = GLFW_PRESS then [GlfwSetWindowShouldClose window True] else [])
       @ [GlClearColor 0.5 0.2 0.3 1.0,
          GlClear {GL_COLOR_BUFFER_BIT, GL_DEPTH_BUFFER_BIT},
          GlfwSwapBuffers window,
          GlfwPollEvents]
       @ (case size_callback (win s) of
            None \<Rightarrow> []
          | Some _ \<Rightarrow> callback_calls (events f))
   \<and> clear_color (loop_body f window s) = Some (0.5, 0.2, 0.3, 1.0)
   \<and> should_close (win (processInput f window s)) = (escape f = GLFW_PRESS)"
  by (simp add: render_loop_open loop_body_trace loop_body_clear_color processInput_eq)

theorem loop_iteration_steps_witness:
  "\<not> should_close (win (start\<lparr>win := (win start)\<lparr>size_callback := Some 1\<rparr>\<rparr>))
   \<and> trace (loop_body \<lparr>escape = GLFW_PRESS, events = [FramebufferResize 640 480]\<rparr> 1
              (start\<lparr>win := (win start)\<lparr>size_callback := Some 1\<rparr>\<rparr>)) =
       [GlfwGetKey 1 GLFW_KEY_ESCAPE,
        GlfwSetWindowShouldClose 1 True,
        GlClearColor 0.5 0.2 0.3 1.0,
        GlClear {GL_COLOR_BUFFER_BIT, GL_DEPTH_BUFFER_BIT},
        GlfwSwapBuffers 1,
        GlfwPollEvents,
        GlViewport 0 0 640 480]"
  using loop_iteration_steps
    [of "start\<lparr>win := (win start)\<lparr>size_callback := Some 1\<rparr>\<rparr>"
        "\<lparr>escape = GLFW_PRESS, events = [FramebufferResize 640 480]\<rparr>" "[]" 1]
  by (simp add: start_def)

text \<open>
  Claim C6. When \<^verbatim>\<open>glfwGetKey\<close> reports Escape as pressed in a pass of the loop, the
  close-requested flag is set by that pass's \<^verbatim>\<open>processInput\<close> and is still set when the
  body ends. If the window was open at the start of the pass, the loop returns after this
  body and one more test of its condition, whatever frames \<open>fs\<close> would follow. This holds
  at any position in the run: after any frames \<open>pre\<close>, the loop returns, and it returns
  the same world as when no frame follows \<open>f\<close>.
\<close>

theorem escape_ends_loop:
  "escape f = GLFW_PRESS \<Longrightarrow>
   should_close (win (processInput f window s))
   \<and> should_close (win (loop_body f window s))
   \<and> (\<not> should_close (win s) \<longrightarrow>
        render_loop (f # fs) window s =
          Some (log_call (GlfwWindowShouldClose window)
                 (loop_body f window (log_call (GlfwWindowShouldClose window) s))))
   \<and> (\<exists>s'. render_loop (pre @ f # fs) window s = Some s'
          \<and> render_loop (pre @ [f]) window s = Some s')"
  by (simp add: processInput_eq loop_body_should_close render_loop_last_pass
      render_loop_ignores_rest)

theorem escape_ends_loop_witness:
  "escape \<lparr>escape = GLFW_PRESS, events = []\<rparr> = GLFW_PRESS
   \<and> \<not> should_close (win start)
   \<and> should_close (win (loop_body \<lparr>escape = GLFW_PRESS, events = []\<rparr> 1 start))
   \<and> render_loop [\<lparr>escape = GLFW_PRESS, events = []\<rparr>,
                   \<lparr>escape = GLFW_RELEASE, events = [FramebufferResize 640 480]\<rparr>] 1 start
       = Some (log_call (GlfwWindowShouldClose 1)
                (loop_body \<lparr>escape = GLFW_PRESS, events = []\<rparr> 1
                  (log_call (GlfwWindowShouldClose 1) start)))"
  using escape_ends_loop
    [of "\<lparr>escape = GLFW_PRESS, events = []\<rparr>" 1 start
        "[\<lparr>escape = GLFW_RELEASE, events = [FramebufferResize 640 480]\<rparr>]" "[]"]
  by (simp add: start_def)

text \<open>
  Claim C7. When \<^verbatim>\<open>glfwCreateWindow\<close> returns a null handle, \<^verbatim>\<open>main\<close> returns \<open>-1\<close>,
  what it has printed is the one line \<^verbatim>\<open>Window Creation Failed\<close>, and its trace has no
  call of the render loop: neither the loop condition nor the body was run.
\<close>

theorem window_creation_failure:
  "created_window e = None \<Longrightarrow>
   \<exists>s. main e = Some (- 1, s)
     \<and> printed (trace s) = [''Window Creation Failed\<newline>'']
     \<and> filter loop_call (trace s) = []"
  by (simp add: main_def bootstrap_null start_def)

theorem window_creation_failure_witness:
  "created_window \<lparr>init_result = True, created_window = None, created_fb_size = (800, 600),
                   glad_result = 1, frames = [\<lparr>escape = GLFW_RELEASE, events = []\<rparr>]\<rparr> = None
   \<and> (\<exists>s. main \<lparr>init_result = True, created_window = None, created_fb_size = (800, 600),
                 glad_result = 1, frames = [\<lparr>escape = GLFW_RELEASE, events = []\<rparr>]\<rparr>
            = Some (- 1, s)
        \<and> printed (trace s) = [''Window Creation Failed\<newline>'']
        \<and> filter loop_call (trace s) = [])"
  using window_creation_failure
    [of "\<lparr>init_result = True, created_window = None, created_fb_size = (800, 600),
          glad_result = 1, frames = [\<lparr>escape = GLFW_RELEASE, events = []\<rparr>]\<rparr>"]
  by simp

text \<open>
  Claim C8. When the window is created and \<^verbatim>\<open>gladLoadGLLoader\<close> returns \<open>0\<close>, \<^verbatim>\<open>main\<close>
  returns \<open>-1\<close>, what it has printed is the one line \<^verbatim>\<open>Failed to initialized GLAD\<close>, and
  its trace has no call of the render loop.
\<close>

theorem glad_load_failure:
  "created_window e = Some w \<Longrightarrow> glad_result e = 0 \<Longrightarrow>
   \<exists>s. main e = Some (- 1, s)
     \<and> printed (trace s) = [''Failed to initialized GLAD\<newline>'']
     \<and> filter loop_call (trace s) = []"
  by (simp add: main_def bootstrap_glad_fail)

theorem glad_load_failure_witness:
  "created_window \<lparr>init_result = True, created_window = Some 1, created_fb_size = (800, 600),
                   glad_result = 0, frames = [\<lparr>escape = GLFW_RELEASE, events = []\<rparr>]\<rparr> = Some 1
   \<and> glad_result \<lparr>init_result = True, created_window = Some 1, created_fb_size = (800, 600),
                   glad_result = 0, frames = [\<lparr>escape = GLFW_RELEASE, events = []\<rparr>]\<rparr> = 0
   \<and> (\<exists>s. main \<lparr>init_result = True, created_window = Some 1, created_fb_size = (800, 600),
                 glad_result = 0, frames = [\<lparr>escape = GLFW_RELEASE, events = []\<rparr>]\<rparr>
            = Some (- 1, s)
        \<and> printed (trace s) = [''Failed to initialized GLAD\<newline>'']
        \<and> filter loop_call (trace s) = [])"
  using glad_load_failure
    [of "\<lparr>init_result = True, created_window = Some 1, created_fb_size = (800, 600),
          glad_result = 0, frames = [\<lparr>escape = GLFW_RELEASE, events = []\<rparr>]\<rparr>" 1]
  by simp

text \<open>
  Claim C9. When the window is created, the function table is loaded, and in some frame
  of the run Escape is pressed or a close request arrives, \<^verbatim>\<open>main\<close> returns, its exit
  code is \<open>0\<close>, and \<^verbatim>\<open>glfwTerminate\<close> occurs exactly once in its trace, as the last call.
\<close>

theorem normal_termination:
  "created_window e = Some w \<Longrightarrow> glad_result e \<noteq> 0 \<Longrightarrow> f \<in> set (frames e) \<Longrightarrow>
   escape f = GLFW_PRESS \<or> CloseRequest \<in> set (events f) \<Longrightarrow>
   \<exists>s. main e = Some (0, s)
     \<and> count_list (trace s) GlfwTerminate = 1
     \<and> last (trace s) = GlfwTerminate"
proof -
  assume created: "created_window e = Some w" and loaded: "glad_result e \<noteq> 0"
    and frame: "f \<in> set (frames e)"
    and closes: "escape f = GLFW_PRESS \<or> CloseRequest \<in> set (events f)"
  obtain s0 where boot: "bootstrap e = (Inr w, s0)"
    and before: "count_list (trace s0) GlfwTerminate = 0"
    using bootstrap_ok [OF created loaded] by simp
  from frame closes
  have "\<exists>g \<in> set (frames e). escape g = GLFW_PRESS \<or> CloseRequest \<in> set (events g)"
    by blast
  then obtain s1 where loop: "render_loop (frames e) w s0 = Some s1"
    using render_loop_returns by blast
  have "count_list (trace s1) GlfwTerminate = 0"
    using render_loop_terminate_count [OF loop] before by simp
  then have "count_list (trace (glfwTerminate s1)) GlfwTerminate = 1"
    and "last (trace (glfwTerminate s1)) = GlfwTerminate"
    by (simp_all add: glfwTerminate_def trace_log_call)
  moreover have "main e = Some (0, glfwTerminate s1)"
    by (simp add: main_def boot loop)
  ultimately show ?thesis
    by blast
qed

theorem normal_termination_witness:
  "created_window \<lparr>init_result = True, created_window = Some 1, created_fb_size = (800, 600),
                   glad_result = 1,
                   frames = [\<lparr>escape = GLFW_RELEASE, events = [FramebufferResize 640 480]\<rparr>,
                             \<lparr>escape = GLFW_RELEASE, events = [CloseRequest]\<rparr>]\<rparr> = Some 1
   \<and> (\<exists>s. main \<lparr>init_result = True, created_window = Some 1, created_fb_size = (800, 600),
                 glad_result = 1,
                 frames = [\<lparr>escape = GLFW_RELEASE, events = [FramebufferResize 640 480]\<rparr>,
                           \<lparr>escape = GLFW_RELEASE, events = [CloseRequest]\<rparr>]\<rparr> = Some (0, s)
          \<and> count_list (trace s) GlfwTerminate = 1
          \<and> last (trace s) = GlfwTerminate)"
  using normal_termination
    [of "\<lparr>init_result = True, created_window = Some 1, created_fb_size = (800, 600),
          glad_result = 1,
          frames = [\<lparr>escape = GLFW_RELEASE, events = [FramebufferResize 640 480]\<rparr>,
                    \<lparr>escape = GLFW_RELEASE, events = [CloseRequest]\<rparr>]\<rparr>"
        1 "\<lparr>escape = GLFW_RELEASE, events = [CloseRequest]\<rparr>"]
  by simp

text \<open>
  Claim C10. \<^verbatim>\<open>processInput\<close> changes nothing but the close-requested flag, which it sets
  to true when Escape is pressed (the trace records its calls); when Escape is not pressed
  the window, the viewport and the clear colour are as before. Once the flag is set, it
  stays set through every operation of the loop body, through the whole body, and through
  any number of bodies.
\<close>

theorem close_flag_monotone:
  "processInput f window s =
     (if escape f = GLFW_PRESS
      then s\<lparr>trace := trace s @ [GlfwGetKey window GLFW_KEY_ESCAPE,
                                   GlfwSetWindowShouldClose window True],
             win := (win s)\<lparr>should_close := True\<rparr>\<rparr>
      else s\<lparr>trace := trace s @ [GlfwGetKey window GLFW_KEY_ESCAPE]\<rparr>)
   \<and> (escape f \<noteq> GLFW_PRESS \<longrightarrow>
        win (processInput f window s) = win s
        \<and> viewport (processInput f window s) = viewport s
        \<and> clear_color (processInput f window s) = clear_color s)
   \<and> (should_close (win s) \<longrightarrow>
        should_close (win (processInput f window s))
        \<and> should_close (win (glClearColor r g b a s))
        \<and> should_close (win (glClear bits s))
        \<and> should_close (win (glfwSwapBuffers window s))
        \<and> should_close (win (glfwPollEvents f s))
        \<and> should_close (win (loop_body f window s))
        \<and> should_close (win (foldl (\<lambda>s f. loop_body f window s) s fs)))"
  by (simp add: processInput_eq loop_body_should_close foldl_loop_body_should_close
      glfwPollEvents_def foldl_dispatch_should_close lib_defs)

theorem close_flag_monotone_witness:
  "escape \<lparr>escape = GLFW_RELEASE, events = [FramebufferResize 640 480]\<rparr> \<noteq> GLFW_PRESS
   \<and> should_close (win (start\<lparr>win := (win start)\<lparr>should_close := True\<rparr>\<rparr>))
   \<and> win (processInput \<lparr>escape = GLFW_RELEASE, events = [FramebufferResize 640 480]\<rparr> 1
            (start\<lparr>win := (win start)\<lparr>should_close := True\<rparr>\<rparr>))
       = win (start\<lparr>win := (win start)\<lparr>should_close := True\<rparr>\<rparr>)
   \<and> should_close
        (win (loop_body \<lparr>escape = GLFW_RELEASE, events = [FramebufferResize 640 480]\<rparr> 1
               (start\<lparr>win := (win start)\<lparr>should_close := True\<rparr>\<rparr>)))"
  using close_flag_monotone
    [of "\<lparr>escape = GLFW_RELEASE, events = [FramebufferResize 640 480]\<rparr>" 1
        "start\<lparr>win := (win start)\<lparr>should_close := True\<rparr>\<rparr>"]
  by (simp add: start_def)

end
